theory Spec2Isabelle
  imports Main "HOL-Library.Sublist"
begin

section \<open>Errors and JavaScript truthiness\<close>

text \<open>
  Every \<^verbatim>\<open>throw\<close> of the source is a value of \<open>error\<close>; a function that can throw
  returns \<open>error + 'a\<close> with \<open>Inl\<close> for the exception. Functions that mutate the game
  return the game next to the result, because a \<^verbatim>\<open>throw\<close> does not undo the writes
  made before it.
\<close>

type_synonym GameId = string

datatype error =
    CouldntFindAgent GameId
  | CouldntFindPlayer GameId
  | CouldntFindConversation GameId
  | TypeError string
  | Thrown string

text \<open>\<^verbatim>\<open>if (s)\<close> on an optional string: \<^verbatim>\<open>undefined\<close> and the empty string are falsy.\<close>

definition truthy :: "string option \<Rightarrow> bool" where
  "truthy s = (case s of None \<Rightarrow> False | Some v \<Rightarrow> v \<noteq> [])"

section \<open>World state read and written by the input handlers\<close>

record Operation =
  kind :: string
  operationId :: string
  started :: int

record ConversationObject =
  conversationId :: string
  tokenCount :: int

type_synonym Point = "int \<times> int"

text \<open>An activity is an object; the handlers only test whether one was given.\<close>

datatype Activity = Activity string

record Agent =
  agent_id :: GameId
  playerId :: GameId
  inProgressOperation :: "Operation option"
  lastConversation :: "int option"
  lastInviteAttempt :: "int option"
  toRemember :: "GameId option"
  knowledgeTableId :: string
  chatTableId :: string
  conversationList :: "ConversationObject list option"

record Player =
  player_id :: GameId
  human :: "string option"
  activity :: "Activity option"

record Conversation =
  conversation_id :: GameId
  created :: int
  numMessages :: int

record World =
  agents :: "GameId \<rightharpoonup> Agent"
  players :: "GameId \<rightharpoonup> Player"
  conversations :: "GameId \<rightharpoonup> Conversation"

record Game =
  world :: World

datatype IdTypes = IdAgents | IdPlayers | IdConversations

text \<open>
  The handlers call into modules of the repository that are not part of the verified
  sources (\<^verbatim>\<open>ids\<close>, \<^verbatim>\<open>conversation\<close>, \<^verbatim>\<open>movement\<close>). They are parameters of the model:
  any function of the right type, free to throw and to change the game.
  \<^verbatim>\<open>players.get(agent.playerId)!\<close> is unchecked at run time, so the player handed to
  \<open>Conversation_start\<close> and \<open>movePlayer\<close> is optional.
\<close>

record Modules =
  parseGameId :: "IdTypes \<Rightarrow> string \<Rightarrow> error + GameId"
  Conversation_start :: "Game \<Rightarrow> int \<Rightarrow> Player option \<Rightarrow> Player \<Rightarrow> (error + unit) \<times> Game"
  movePlayer :: "Game \<Rightarrow> int \<Rightarrow> Player option \<Rightarrow> Point \<Rightarrow> (error + unit) \<times> Game"
  finishSendingMessage :: "Game \<Rightarrow> int \<Rightarrow> GameId \<Rightarrow> string \<Rightarrow> int \<Rightarrow> (error + unit) \<times> Game"
  conversation_leave :: "Conversation \<Rightarrow> Game \<Rightarrow> int \<Rightarrow> Player \<Rightarrow> (error + unit) \<times> Game"

text \<open>
  Writing a field of the agent (or player) object stored under a key of the world. The
  handlers hold their objects by reference; the model reads an object under its key in
  the current game, which is the same object as long as a callee does not replace the
  entry of that key.
\<close>

definition setAgent :: "Game \<Rightarrow> GameId \<Rightarrow> Agent \<Rightarrow> Game" where
  "setAgent game k a = game\<lparr>world := (world game)\<lparr>agents := (agents (world game))(k \<mapsto> a)\<rparr>\<rparr>"

definition setPlayer :: "Game \<Rightarrow> GameId \<Rightarrow> Player \<Rightarrow> Game" where
  "setPlayer game k p = game\<lparr>world := (world game)\<lparr>players := (players (world game))(k \<mapsto> p)\<rparr>\<rparr>"

text \<open>
  The fencing test written out in each of the three handlers:
  \<^verbatim>\<open>!agent.inProgressOperation || agent.inProgressOperation.operationId !== args.operationId\<close>.
\<close>

definition notInProgress :: "Agent \<Rightarrow> string \<Rightarrow> bool" where
  "notInProgress agent opId =
     (case inProgressOperation agent of None \<Rightarrow> True | Some op \<Rightarrow> operationId op \<noteq> opId)"

section \<open>The completion handlers of agentInputs\<close>

definition finishRememberConversation ::
  "Modules \<Rightarrow> Game \<Rightarrow> int \<Rightarrow> string \<Rightarrow> string \<Rightarrow> (error + unit) \<times> Game" where
  "finishRememberConversation m game now args_operationId args_agentId =
     (case parseGameId m IdAgents args_agentId of
        Inl e \<Rightarrow> (Inl e, game)
      | Inr agentId \<Rightarrow>
          (case agents (world game) agentId of
             None \<Rightarrow> (Inl (CouldntFindAgent agentId), game)
           | Some agent \<Rightarrow>
               if notInProgress agent args_operationId then (Inr (), game)
               else (Inr (), setAgent game agentId
                       (agent\<lparr>inProgressOperation := None, toRemember := None\<rparr>))))"

text \<open>
  The tail of \<^verbatim>\<open>finishDoSomething\<close> after the invitation: the optional move and the
  optional activity. \<^verbatim>\<open>player.activity = ...\<close> on a missing player is a TypeError.
\<close>

definition doSomething_rest ::
  "Modules \<Rightarrow> Game \<Rightarrow> int \<Rightarrow> GameId \<Rightarrow> Point option \<Rightarrow> Activity option \<Rightarrow> (error + unit) \<times> Game" where
  "doSomething_rest m game now pid args_destination args_activity =
     (case (case args_destination of
              None \<Rightarrow> (Inr (), game)
            | Some d \<Rightarrow> movePlayer m game now (players (world game) pid) d) of
        (Inl e, g1) \<Rightarrow> (Inl e, g1)
      | (Inr u, g1) \<Rightarrow>
          (case args_activity of
             None \<Rightarrow> (Inr (), g1)
           | Some a \<Rightarrow>
               (case players (world g1) pid of
                  None \<Rightarrow> (Inl (TypeError ''Cannot set properties of undefined''), g1)
                | Some player \<Rightarrow> (Inr (), setPlayer g1 pid (player\<lparr>activity := Some a\<rparr>)))))"

definition finishDoSomething ::
  "Modules \<Rightarrow> Game \<Rightarrow> int \<Rightarrow> string \<Rightarrow> string \<Rightarrow> Point option \<Rightarrow> string option \<Rightarrow>
     Activity option \<Rightarrow> (error + unit) \<times> Game" where
  "finishDoSomething m game now args_operationId args_agentId args_destination args_invitee
       args_activity =
     (case parseGameId m IdAgents args_agentId of
        Inl e \<Rightarrow> (Inl e, game)
      | Inr agentId \<Rightarrow>
          (case agents (world game) agentId of
             None \<Rightarrow> (Inl (CouldntFindAgent agentId), game)
           | Some agent \<Rightarrow>
               if notInProgress agent args_operationId then (Inr (), game)
               else
                 let g0 = setAgent game agentId (agent\<lparr>inProgressOperation := None\<rparr>);
                     player = players (world g0) (playerId agent)
                 in if truthy args_invitee then
                      (case parseGameId m IdPlayers (the args_invitee) of
                         Inl e \<Rightarrow> (Inl e, g0)
                       | Inr inviteeId \<Rightarrow>
                           (case players (world g0) inviteeId of
                              None \<Rightarrow> (Inl (CouldntFindPlayer inviteeId), g0)
                            | Some invitee \<Rightarrow>
                                (case Conversation_start m g0 now player invitee of
                                   (Inl e, g1) \<Rightarrow> (Inl e, g1)
                                 | (Inr u, g1) \<Rightarrow>
                                     let g2 = (case agents (world g1) agentId of
                                                 None \<Rightarrow> g1
                                               | Some a1 \<Rightarrow>
                                                   setAgent g1 agentId
                                                     (a1\<lparr>lastInviteAttempt := Some now\<rparr>))
                                     in doSomething_rest m g2 now (playerId agent)
                                          args_destination args_activity)))
                    else doSomething_rest m g0 now (playerId agent)
                           args_destination args_activity))"

definition agentFinishSendingMessage ::
  "Modules \<Rightarrow> Game \<Rightarrow> int \<Rightarrow> string \<Rightarrow> string \<Rightarrow> int \<Rightarrow> string \<Rightarrow> bool \<Rightarrow>
     (error + unit) \<times> Game" where
  "agentFinishSendingMessage m game now args_agentId args_conversationId args_timestamp
       args_operationId args_leaveConversation =
     (case parseGameId m IdAgents args_agentId of
        Inl e \<Rightarrow> (Inl e, game)
      | Inr agentId \<Rightarrow>
          (case agents (world game) agentId of
             None \<Rightarrow> (Inl (CouldntFindAgent agentId), game)
           | Some agent \<Rightarrow>
               (case players (world game) (playerId agent) of
                  None \<Rightarrow> (Inl (CouldntFindPlayer (playerId agent)), game)
                | Some player \<Rightarrow>
                    (case parseGameId m IdConversations args_conversationId of
                       Inl e \<Rightarrow> (Inl e, game)
                     | Inr convId \<Rightarrow>
                         (case conversations (world game) convId of
                            None \<Rightarrow> (Inl (CouldntFindConversation convId), game)
                          | Some conversation \<Rightarrow>
                              if notInProgress agent args_operationId then (Inr (), game)
                              else
                                let g0 = setAgent game agentId
                                           (agent\<lparr>inProgressOperation := None\<rparr>)
                                in (case finishSendingMessage m g0 now (playerId agent)
                                           args_conversationId args_timestamp of
                                      (Inl e, g1) \<Rightarrow> (Inl e, g1)
                                    | (Inr u, g1) \<Rightarrow>
                                        if args_leaveConversation
                                        then conversation_leave m
                                               (case conversations (world g1) convId of
                                                  Some c1 \<Rightarrow> c1 | None \<Rightarrow> conversation)
                                               g1 now
                                               (case players (world g1) (playerId agent) of
                                                  Some p1 \<Rightarrow> p1 | None \<Rightarrow> player)
                                        else (Inr (), g1)))))))"

section \<open>Strings\<close>

text \<open>\<^verbatim>\<open>String.prototype.indexOf\<close>: the first position at which the pattern occurs.\<close>

fun indexOf :: "string \<Rightarrow> string \<Rightarrow> nat option" where
  "indexOf [] pat = (if pat = [] then Some 0 else None)"
| "indexOf (c # cs) pat =
     (if prefix pat (c # cs) then Some 0 else map_option Suc (indexOf cs pat))"

text \<open>\<^verbatim>\<open>Array.prototype.join\<close>.\<close>

fun join :: "string \<Rightarrow> string list \<Rightarrow> string" where
  "join sep [] = []"
| "join sep [x] = x"
| "join sep (x # y # ys) = x @ sep @ join sep (y # ys)"

text \<open>
  A string is the sequence of its code units. \<^verbatim>\<open>String.prototype.toLowerCase\<close> lowers
  the letters of every script and belongs to the JavaScript runtime: it is not defined
  here but read from the context of the action, as an arbitrary function on strings.
\<close>

section \<open>The generation service and the record of its requests\<close>

record Row =
  User :: "string option"
  AI :: "string option"
  Updated_at :: string

record PageListTableRowsResponse =
  items :: "Row list"

record LLMMessage =
  role :: string
  content :: string

record ChatCompletionRequest =
  messages :: "LLMMessage list"
  max_tokens :: int
  stream :: bool
  stop :: "string list"
  req_conversationId :: string

text \<open>
  Every request sent to the service, with the fields of its body:
  \<open>DuplicateTable table_id_src table_id_dst\<close>,
  \<open>ListTableRows table_id offset limit table_type\<close>,
  \<open>UploadFile table_id file_name file_content\<close>,
  \<open>DeleteTable table_id table_type\<close>.
\<close>

datatype call =
    DuplicateTable "string option" string
  | ListTableRows string int int string
  | UploadFile string string string
  | DeleteTable string string
  | ChatCompletion ChatCompletionRequest

text \<open>
  The service is outside the repository. Its answer to a request is an arbitrary
  function of the requests made so far and of the request itself, and any request may
  throw. Functions that talk to the service take the list of earlier requests and
  return it extended.
\<close>

record Services =
  duplicateTable :: "call list \<Rightarrow> string option \<Rightarrow> string \<Rightarrow> error + unit"
  listRows :: "call list \<Rightarrow> string \<Rightarrow> int \<Rightarrow> int \<Rightarrow> string \<Rightarrow> error + PageListTableRowsResponse"
  uploadFile :: "call list \<Rightarrow> string \<Rightarrow> string \<Rightarrow> string \<Rightarrow> error + unit"
  deleteTable :: "call list \<Rightarrow> string \<Rightarrow> string \<Rightarrow> error + unit"
  chatCompletion :: "call list \<Rightarrow> ChatCompletionRequest \<Rightarrow> error + string"

subsection \<open>JamAIBaseAPi: each request inside try/catch\<close>

definition createAgentConversationTable ::
  "Services \<Rightarrow> string option \<Rightarrow> string \<Rightarrow> call list \<Rightarrow> call list" where
  "createAgentConversationTable sv agentChatTable convId log =
     (case duplicateTable sv log agentChatTable convId of
        Inr response \<Rightarrow> log @ [DuplicateTable agentChatTable convId]
      | Inl err \<Rightarrow> log @ [DuplicateTable agentChatTable convId])"

definition getChatTableRows ::
  "Services \<Rightarrow> string \<Rightarrow> call list \<Rightarrow> PageListTableRowsResponse option \<times> call list" where
  "getChatTableRows sv tableId log =
     (case listRows sv log tableId 0 100 ''chat'' of
        Inr response \<Rightarrow> (Some response, log @ [ListTableRows tableId 0 100 ''chat''])
      | Inl err \<Rightarrow> (None, log @ [ListTableRows tableId 0 100 ''chat'']))"

definition dumpMemoryIntoKnowledgeTable ::
  "Services \<Rightarrow> string \<Rightarrow> string \<Rightarrow> call list \<Rightarrow> call list" where
  "dumpMemoryIntoKnowledgeTable sv agentId agentMemoryString log =
     (let table_id = ''Knowledge_Ai-Town-'' @ agentId;
          file_name = ''Agent_'' @ agentId @ ''_memory.txt''
      in (case uploadFile sv log table_id file_name agentMemoryString of
            Inr response \<Rightarrow> log @ [UploadFile table_id file_name agentMemoryString]
          | Inl err \<Rightarrow> log @ [UploadFile table_id file_name agentMemoryString]))"

definition deleteConversationTable ::
  "Services \<Rightarrow> string \<Rightarrow> call list \<Rightarrow> unit option \<times> call list" where
  "deleteConversationTable sv convId log =
     (case deleteTable sv log convId ''chat'' of
        Inr response \<Rightarrow> (Some response, log @ [DeleteTable convId ''chat''])
      | Inl err \<Rightarrow> (None, log @ [DeleteTable convId ''chat'']))"

section \<open>The result of queryPromptData\<close>

text \<open>
  \<^verbatim>\<open>{ name, ...player }\<close> and \<^verbatim>\<open>{ identity, plan, ...agent }\<close> are record extensions.
  The conversation functions below mutate the agent objects of this result; the model
  returns the result with the objects as they are when the function ends. What the
  runtime does with these objects afterwards is not part of the functions.
\<close>

record NamedPlayer = Player +
  name :: string

record DescribedAgent = Agent +
  identity :: string
  plan :: string

record PromptData =
  player :: NamedPlayer
  otherPlayer :: NamedPlayer
  conversation :: "Conversation option"
  agent :: DescribedAgent
  otherAgent :: "DescribedAgent option"

record Message =
  author :: GameId
  msg_text :: string

text \<open>
  What an action reads from its context besides the service: the outcome of
  \<^verbatim>\<open>ctx.runQuery(queryPromptData)\<close> and of \<^verbatim>\<open>ctx.runQuery(listMessages)\<close> (either may
  throw), the clock, and two functions of the JavaScript runtime: the locale's date
  format and \<^verbatim>\<open>String.prototype.toLowerCase\<close>.
\<close>

record ActionCtx =
  promptData :: "error + PromptData"
  listMessages :: "error + Message list"
  dateNow :: int
  toLocaleString :: "int \<Rightarrow> string"
  toLowerCase :: "string \<Rightarrow> string"

section \<open>Turn orchestration\<close>

text \<open>The first argument is the runtime's \<^verbatim>\<open>toLowerCase\<close>.\<close>

definition stopWords :: "(string \<Rightarrow> string) \<Rightarrow> string \<Rightarrow> string \<Rightarrow> string list" where
  "stopWords lower otherPlayerName playerName =
     (let variants = [otherPlayerName @ '' to '' @ playerName]
      in concat (map (\<lambda>stop. [stop @ '':'', lower stop @ '':'']) variants))"

definition agentPrompts ::
  "NamedPlayer \<Rightarrow> DescribedAgent option \<Rightarrow> DescribedAgent option \<Rightarrow> string list" where
  "agentPrompts other ag otherAg =
     (case otherAg of
        Some oa \<Rightarrow> [''About '' @ name other @ '': '' @ identity oa]
      | None \<Rightarrow> [])"

definition previousMessages ::
  "error + Message list \<Rightarrow> NamedPlayer \<Rightarrow> NamedPlayer \<Rightarrow> error + LLMMessage list" where
  "previousMessages listed pl other =
     (case listed of
        Inl e \<Rightarrow> Inl e
      | Inr prevMessages \<Rightarrow>
          Inr (if length prevMessages > 0 then
                 let message = last prevMessages;
                     auth = (if author message = player_id pl then pl else other);
                     recipient = (if author message = player_id pl then other else pl)
                 in [\<lparr>role = ''user'',
                      content = name auth @ '' to '' @ name recipient @ '': '' @ msg_text message\<rparr>]
               else []))"

text \<open>
  \<^verbatim>\<open>if (!list?.some(conv => conv.conversationId === checked)) list?.push(pushed)\<close>:
  the identifier that is looked for and the object that is appended are separate
  arguments, as they are separate expressions in the source. On a missing list both
  the test and the push do nothing.
\<close>

definition pushUnlessSome ::
  "string \<Rightarrow> ConversationObject \<Rightarrow> ConversationObject list option \<Rightarrow>
     ConversationObject list option" where
  "pushUnlessSome checked pushed lst =
     (case lst of
        None \<Rightarrow> None
      | Some cl \<Rightarrow>
          if \<not> list_ex (\<lambda>conv. conversationId conv = checked) cl then Some (cl @ [pushed])
          else Some cl)"

definition startConversationMessage ::
  "Services \<Rightarrow> ActionCtx \<Rightarrow> call list \<Rightarrow> (error + string \<times> PromptData) \<times> call list" where
  "startConversationMessage sv ctx log =
     (case promptData ctx of
        Inl e \<Rightarrow> (Inl e, log)
      | Inr pd \<Rightarrow>
          let pn = name (player pd);
              opn = name (otherPlayer pd);
              log1 = createAgentConversationTable sv (Some (chatTableId (agent pd)))
                       (pn @ ''-'' @ opn) log;
              log2 = (if \<not> truthy (human (otherPlayer pd))
                      then createAgentConversationTable sv
                             (map_option chatTableId (otherAgent pd)) (opn @ ''-'' @ pn) log1
                      else log1);
              conv = \<lparr>conversationId = pn @ ''-'' @ opn, tokenCount = 0\<rparr>;
              otherConv = \<lparr>conversationId = opn @ ''-'' @ pn, tokenCount = 0\<rparr>;
              ag = (agent pd)\<lparr>conversationList :=
                      pushUnlessSome (conversationId conv) conv (conversationList (agent pd))\<rparr>;
              otherAg = map_option
                      (\<lambda>oa. oa\<lparr>conversationList :=
                          pushUnlessSome (conversationId otherConv) conv (conversationList oa)\<rparr>)
                      (otherAgent pd);
              pd1 = pd\<lparr>agent := ag, otherAgent := otherAg\<rparr>;
              prompt = [''You are '' @ pn @ '', and you just started a conversation with '' @ opn @
                        ''. Do NOT describe what you will do. Assume this is a dialogue in a first person point of view. You may refer to previous chat histories to form your response.'']
                       @ agentPrompts (otherPlayer pd) (Some ag) otherAg;
              req = \<lparr>messages = [\<lparr>role = ''user'', content = join ''\<newline>'' prompt\<rparr>],
                     max_tokens = 300, stream = True, stop = stopWords (toLowerCase ctx) opn pn,
                     req_conversationId = conversationId conv\<rparr>
          in (case chatCompletion sv log2 req of
                Inl e \<Rightarrow> (Inl e, log2 @ [ChatCompletion req])
              | Inr generated \<Rightarrow> (Inr (generated, pd1), log2 @ [ChatCompletion req])))"

definition continueConversationMessage ::
  "Services \<Rightarrow> ActionCtx \<Rightarrow> call list \<Rightarrow> (error + string \<times> PromptData) \<times> call list" where
  "continueConversationMessage sv ctx log =
     (case promptData ctx of
        Inl e \<Rightarrow> (Inl e, log)
      | Inr pd \<Rightarrow>
          let pn = name (player pd);
              opn = name (otherPlayer pd);
              lazy = (truthy (human (otherPlayer pd)) \<and>
                      map_option numMessages (conversation pd) = Some 1);
              log1 = (if lazy
                      then createAgentConversationTable sv (Some (chatTableId (agent pd)))
                             (pn @ ''-'' @ opn) log
                      else log);
              conv = \<lparr>conversationId = pn @ ''-'' @ opn, tokenCount = 0\<rparr>;
              ag = (if lazy
                    then (agent pd)\<lparr>conversationList :=
                           pushUnlessSome (conversationId conv) conv (conversationList (agent pd))\<rparr>
                    else agent pd);
              pd1 = pd\<lparr>agent := ag\<rparr>;
              startedAt = (case conversation pd of Some c \<Rightarrow> created c | None \<Rightarrow> 0);
              prompt = [''The conversation first started at '' @ toLocaleString ctx startedAt @
                        ''. It's now '' @ toLocaleString ctx (dateNow ctx) @ ''.'']
          in (case previousMessages (listMessages ctx) (player pd) (otherPlayer pd) of
                Inl e \<Rightarrow> (Inl e, log1)
              | Inr prev \<Rightarrow>
                  (let llmMessages = \<lparr>role = ''user'', content = join ''\<newline>'' prompt\<rparr> # prev;
                       req = \<lparr>messages = llmMessages, max_tokens = 300, stream = True,
                              stop = stopWords (toLowerCase ctx) opn pn, req_conversationId = pn @ ''-'' @ opn\<rparr>
                   in (case chatCompletion sv log1 req of
                         Inl e \<Rightarrow> (Inl e, log1 @ [ChatCompletion req])
                       | Inr generated \<Rightarrow>
                           (Inr (generated, pd1), log1 @ [ChatCompletion req])))))"

definition leaveConversationMessage ::
  "Services \<Rightarrow> ActionCtx \<Rightarrow> call list \<Rightarrow> (error + string \<times> PromptData) \<times> call list" where
  "leaveConversationMessage sv ctx log =
     (case promptData ctx of
        Inl e \<Rightarrow> (Inl e, log)
      | Inr pd \<Rightarrow>
          let pn = name (player pd);
              opn = name (otherPlayer pd);
              prompt = [''You are '' @ pn @ '', and you're currently in a conversation with '' @ opn @ ''.'',
                        ''You've decided to leave the question and would like to politely tell them you're leaving the conversation.'']
                       @ agentPrompts (otherPlayer pd) (Some (agent pd)) (otherAgent pd)
                       @ [''Below is the most recent dialogue between you and '' @ opn @ ''.'',
                          ''How would you like to tell them that you're leaving? Your response should be brief and within 200 characters.'']
          in (case previousMessages (listMessages ctx) (player pd) (otherPlayer pd) of
                Inl e \<Rightarrow> (Inl e, log)
              | Inr prev \<Rightarrow>
                  (let llmMessages = \<lparr>role = ''user'', content = join ''\<newline>'' prompt\<rparr> # prev;
                       req = \<lparr>messages = llmMessages, max_tokens = 300, stream = True,
                              stop = stopWords (toLowerCase ctx) opn pn, req_conversationId = pn @ ''-'' @ opn\<rparr>
                   in (case chatCompletion sv log req of
                         Inl e \<Rightarrow> (Inl e, log @ [ChatCompletion req])
                       | Inr generated \<Rightarrow>
                           (Inr (generated, pd), log @ [ChatCompletion req])))))"

section \<open>Usage tracking and memory consolidation\<close>

text \<open>
  \<^verbatim>\<open>const c = list?.find(c => c.conversationId === key); if (c != undefined) c.tokenCount = n\<close>:
  the first record with the key gets the count; a list without the key, or a missing
  list, is left as it is.
\<close>

fun setTokenCount :: "string \<Rightarrow> int \<Rightarrow> ConversationObject list \<Rightarrow> ConversationObject list" where
  "setTokenCount key n [] = []"
| "setTokenCount key n (c # cs) =
     (if conversationId c = key then c\<lparr>tokenCount := n\<rparr> # cs
      else c # setTokenCount key n cs)"

definition updateTokens :: "ActionCtx \<Rightarrow> int \<Rightarrow> error + PromptData" where
  "updateTokens ctx totalTokens =
     (case promptData ctx of
        Inl e \<Rightarrow> Inl e
      | Inr pd \<Rightarrow>
          let pn = name (player pd);
              opn = name (otherPlayer pd)
          in Inr (pd\<lparr>agent := (agent pd)\<lparr>conversationList :=
                          map_option (setTokenCount (pn @ ''-'' @ opn) totalTokens)
                            (conversationList (agent pd))\<rparr>,
                      otherAgent := map_option
                          (\<lambda>oa. oa\<lparr>conversationList :=
                             map_option (setTokenCount (opn @ ''-'' @ pn) totalTokens)
                               (conversationList oa)\<rparr>)
                          (otherAgent pd)\<rparr>))"

text \<open>The strings that the body of the \<^verbatim>\<open>forEach\<close> in \<^verbatim>\<open>dumpMemory\<close> pushes for one row.\<close>

definition dumpRow :: "string \<Rightarrow> string \<Rightarrow> Row \<Rightarrow> string list" where
  "dumpRow pl other item =
     (case User item of
        None \<Rightarrow> []
      | Some userContent \<Rightarrow>
          (case indexOf userContent (other @ '' to '' @ pl @ '':'') of
             Some otherPlayerDialogueStart \<Rightarrow>
               [''Conversation started at: '' @ Updated_at item,
                drop otherPlayerDialogueStart userContent]
           | None \<Rightarrow>
               [''Summary of conversation with '' @ other @ '' that ended at '' @
                Updated_at item @ '': \<newline>''])
          @ (case AI item of Some ai \<Rightarrow> [pl @ '': '' @ ai] | None \<Rightarrow> []))"

definition dumpMemory ::
  "Services \<Rightarrow> PageListTableRowsResponse \<Rightarrow> string \<Rightarrow> string \<Rightarrow> string option \<Rightarrow>
     call list \<Rightarrow> call list" where
  "dumpMemory sv responseBody pl other otherPlayDesc log =
     (let allContents = (if truthy otherPlayDesc then [the otherPlayDesc] else [])
                        @ concat (map (dumpRow pl other) (rev (items responseBody)));
          fileContent = join ''\<newline>'' allContents
      in dumpMemoryIntoKnowledgeTable sv pl fileContent log)"

definition dumpConversationTable ::
  "Services \<Rightarrow> ActionCtx \<Rightarrow> call list \<Rightarrow> (error + PromptData) \<times> call list" where
  "dumpConversationTable sv ctx log =
     (case promptData ctx of
        Inl e \<Rightarrow> (Inl e, log)
      | Inr pd \<Rightarrow>
          let pn = name (player pd);
              opn = name (otherPlayer pd);
              (data, log1) = getChatTableRows sv (pn @ ''-'' @ opn) log;
              log2 = (case data of
                        Some d \<Rightarrow> dumpMemory sv d pn opn (map_option identity (otherAgent pd)) log1
                      | None \<Rightarrow> log1);
              (otherData, log3) = getChatTableRows sv (opn @ ''-'' @ pn) log2;
              log4 = (case otherData of
                        Some d \<Rightarrow> dumpMemory sv d opn pn (map_option identity (otherAgent pd)) log3
                      | None \<Rightarrow> log3);
              pd1 = pd\<lparr>agent := (agent pd)\<lparr>conversationList :=
                          map_option (setTokenCount (pn @ ''-'' @ opn) 0)
                            (conversationList (agent pd))\<rparr>\<rparr>;
              (deleted, log5) = deleteConversationTable sv (pn @ ''-'' @ opn) log4
          in (Inr pd1, log5))"

section \<open>Vocabulary of the properties\<close>

text \<open>
  The count that \<^verbatim>\<open>find\<close> reads for a conversation key: the \<open>tokenCount\<close> of the first
  record of the list with that \<open>conversationId\<close>, if there is one.
\<close>

definition storedTokenCount :: "string \<Rightarrow> ConversationObject list option \<Rightarrow> int option" where
  "storedTokenCount key lst =
     (case lst of
        None \<Rightarrow> None
      | Some cl \<Rightarrow> map_option tokenCount (find (\<lambda>c. conversationId c = key) cl))"

text \<open>At most one record for each \<open>conversationId\<close>.\<close>

definition uniqueConversationIds :: "ConversationObject list option \<Rightarrow> bool" where
  "uniqueConversationIds lst =
     (case lst of None \<Rightarrow> True | Some cl \<Rightarrow> distinct (map conversationId cl))"

text \<open>The transcript tables asked for by the requests of a log, in order.\<close>

fun provisioned :: "call list \<Rightarrow> string list" where
  "provisioned [] = []"
| "provisioned (DuplicateTable src dst # cs) = dst # provisioned cs"
| "provisioned (c # cs) = provisioned cs"

section \<open>Concrete worlds, services and query results\<close>

text \<open>
  Alice (agent \<open>a:1\<close>, player \<open>p:1\<close>) has the operation \<open>op2\<close> in progress. The modules
  accept every identifier and change nothing.
\<close>

definition exModules :: Modules where
  "exModules = \<lparr> parseGameId = (\<lambda>t s. Inr s),
      Conversation_start = (\<lambda>g n p q. (Inr (), g)),
      movePlayer = (\<lambda>g n p d. (Inr (), g)),
      finishSendingMessage = (\<lambda>g n p c t. (Inr (), g)),
      conversation_leave = (\<lambda>c g n p. (Inr (), g)) \<rparr>"

definition exAgent :: Agent where
  "exAgent = \<lparr> agent_id = ''a:1'', playerId = ''p:1'',
      inProgressOperation = Some \<lparr> kind = ''agentDoSomething'', operationId = ''op2'', started = 0 \<rparr>,
      lastConversation = None, lastInviteAttempt = None, toRemember = Some ''c:7'',
      knowledgeTableId = ''knowledge_Ai-Town-Alice'', chatTableId = ''Chat_Ai-Town-Alice'',
      conversationList = Some [] \<rparr>"

definition exPlayer :: Player where
  "exPlayer = \<lparr> player_id = ''p:1'', human = None, activity = None \<rparr>"

definition exConversation :: Conversation where
  "exConversation = \<lparr> conversation_id = ''c:7'', created = 0, numMessages = 2 \<rparr>"

definition exGame :: Game where
  "exGame = \<lparr> world = \<lparr> agents = [''a:1'' \<mapsto> exAgent], players = [''p:1'' \<mapsto> exPlayer],
      conversations = [''c:7'' \<mapsto> exConversation] \<rparr> \<rparr>"

text \<open>
  A service in which exactly the listed transcript tables exist: reading or deleting any
  other table throws. Alice and Bob are agents with empty usage lists, as
  \<^verbatim>\<open>createAgent\<close> leaves them; Hank is a human player.
\<close>

definition exPage :: PageListTableRowsResponse where
  "exPage = \<lparr>items = [\<lparr>User = Some ''Bob to Alice: Hi'', AI = Some ''Hello Bob'',
                        Updated_at = ''2024-07-01''\<rparr>]\<rparr>"

definition exServices :: "string list \<Rightarrow> Services" where
  "exServices tables =
     \<lparr> duplicateTable = (\<lambda>h src dst. Inr ()),
       listRows = (\<lambda>h t off lim ty.
          if t \<in> set tables
          then Inr exPage
          else Inl (Thrown ''Table not found'')),
       uploadFile = (\<lambda>h t f c. Inr ()),
       deleteTable = (\<lambda>h t ty. if t \<in> set tables then Inr () else Inl (Thrown ''Table not found'')),
       chatCompletion = (\<lambda>h req. Inr ''Hello Bob'') \<rparr>"

definition exAlice :: DescribedAgent where
  "exAlice = \<lparr> agent_id = ''a:1'', playerId = ''p:1'', inProgressOperation = None,
      lastConversation = None, lastInviteAttempt = None, toRemember = None,
      knowledgeTableId = ''knowledge_Ai-Town-Alice'', chatTableId = ''Chat_Ai-Town-Alice'',
      conversationList = Some [], identity = ''Alice likes tea'', plan = ''Make friends'' \<rparr>"

definition exBob :: DescribedAgent where
  "exBob = \<lparr> agent_id = ''a:2'', playerId = ''p:2'', inProgressOperation = None,
      lastConversation = None, lastInviteAttempt = None, toRemember = None,
      knowledgeTableId = ''knowledge_Ai-Town-Bob'', chatTableId = ''Chat_Ai-Town-Bob'',
      conversationList = Some [], identity = ''Bob likes chess'', plan = ''Win'' \<rparr>"

definition exPromptData :: PromptData where
  "exPromptData =
     \<lparr> player = \<lparr> player_id = ''p:1'', human = None, activity = None, name = ''Alice'' \<rparr>,
       otherPlayer = \<lparr> player_id = ''p:2'', human = None, activity = None, name = ''Bob'' \<rparr>,
       conversation = Some \<lparr> conversation_id = ''c:7'', created = 0, numMessages = 2 \<rparr>,
       agent = exAlice, otherAgent = Some exBob \<rparr>"

definition exHumanPromptData :: PromptData where
  "exHumanPromptData =
     \<lparr> player = \<lparr> player_id = ''p:1'', human = None, activity = None, name = ''Alice'' \<rparr>,
       otherPlayer = \<lparr> player_id = ''p:3'', human = Some ''token|hank'', activity = None,
                       name = ''Hank'' \<rparr>,
       conversation = Some \<lparr> conversation_id = ''c:8'', created = 0, numMessages = 0 \<rparr>,
       agent = exAlice, otherAgent = None \<rparr>"

text \<open>A runtime whose \<^verbatim>\<open>toLowerCase\<close> is given on the letters A to Z.\<close>

definition exLowerChar :: "char \<Rightarrow> char" where
  "exLowerChar c =
     (let n = (of_char c :: nat) in if 65 \<le> n \<and> n \<le> 90 then char_of (n + 32) else c)"

definition exToLowerCase :: "string \<Rightarrow> string" where
  "exToLowerCase s = map exLowerChar s"

definition exCtx :: "PromptData \<Rightarrow> ActionCtx" where
  "exCtx pd =
     \<lparr> promptData = Inr pd,
       listMessages = Inr [\<lparr>author = ''p:2'', msg_text = ''Hi Alice''\<rparr>,
                           \<lparr>author = ''p:1'', msg_text = ''Hello Bob''\<rparr>],
       dateNow = 1000, toLocaleString = (\<lambda>t. ''7/1/2024''),
       toLowerCase = exToLowerCase \<rparr>"

definition exUsedPromptData :: PromptData where
  "exUsedPromptData =
     exPromptData\<lparr>agent := exAlice\<lparr>conversationList :=
                       Some [\<lparr>conversationId = ''Alice-Bob'', tokenCount = 1500\<rparr>]\<rparr>,
                   otherAgent := Some (exBob\<lparr>conversationList :=
                       Some [\<lparr>conversationId = ''Bob-Alice'', tokenCount = 1500\<rparr>]\<rparr>)\<rparr>"

text \<open>Alice and Bob hold usage records of their conversations with Carol only.\<close>

definition exCarolPromptData :: PromptData where
  "exCarolPromptData =
     exPromptData\<lparr>agent := exAlice\<lparr>conversationList :=
                       Some [\<lparr>conversationId = ''Alice-Carol'', tokenCount = 7\<rparr>]\<rparr>,
                   otherAgent := Some (exBob\<lparr>conversationList :=
                       Some [\<lparr>conversationId = ''Bob-Carol'', tokenCount = 3\<rparr>]\<rparr>)\<rparr>"

definition exStartTwice :: "(error + string \<times> PromptData) \<times> call list" where
  "exStartTwice =
     (case startConversationMessage (exServices []) (exCtx exPromptData) [] of
        (Inr (generated, pd1), log1) \<Rightarrow> startConversationMessage (exServices []) (exCtx pd1) log1
      | (Inl e, log1) \<Rightarrow> (Inl e, log1))"

text \<open>The request that Alice's continuation sends in the concrete context.\<close>

definition exContinueRequest :: ChatCompletionRequest where
  "exContinueRequest =
     \<lparr>messages = [\<lparr>role = ''user'',
                    content = ''The conversation first started at 7/1/2024. It's now 7/1/2024.''\<rparr>,
                  \<lparr>role = ''user'', content = ''Alice to Bob: Hello Bob''\<rparr>],
       max_tokens = 300, stream = True, stop = [''Bob to Alice:'', ''bob to alice:''],
       req_conversationId = ''Alice-Bob''\<rparr>"

section \<open>Fencing of completions\<close>

text \<open>
  Claim C9. When \<^verbatim>\<open>finishRememberConversation\<close> receives a completion whose
  operation identifier is that of the agent's operation in progress, it clears both
  \<open>inProgressOperation\<close> and \<open>toRemember\<close>; when the agent has no operation in progress or
  one with another identifier, it changes nothing. In both cases, for a completion that
  names an existing agent, it returns null and does not throw.
\<close>

theorem finishRememberConversation_fence:
  assumes "parseGameId m IdAgents args_agentId = Inr agentId"
    and "agents (world game) agentId = Some ag"
  shows "((\<exists>op. inProgressOperation ag = Some op \<and> operationId op = opId) \<longrightarrow>
            finishRememberConversation m game now opId args_agentId =
              (Inr (), setAgent game agentId
                         (ag\<lparr>inProgressOperation := None, toRemember := None\<rparr>)) \<and>
            map_option (\<lambda>a. (inProgressOperation a, toRemember a))
              (agents (world (snd (finishRememberConversation m game now opId args_agentId)))
                 agentId) = Some (None, None)) \<and>
         ((\<forall>op. inProgressOperation ag = Some op \<longrightarrow> operationId op \<noteq> opId) \<longrightarrow>
            finishRememberConversation m game now opId args_agentId = (Inr (), game))"
  using assms
  by (auto simp: finishRememberConversation_def notInProgress_def setAgent_def
      split: option.splits)

theorem finishRememberConversation_fence_witness:
  "finishRememberConversation exModules exGame 5 ''op2'' ''a:1'' =
     (Inr (), setAgent exGame ''a:1'' (exAgent\<lparr>inProgressOperation := None, toRemember := None\<rparr>)) \<and>
   finishRememberConversation exModules exGame 5 ''op1'' ''a:1'' = (Inr (), exGame)"
  using finishRememberConversation_fence [of exModules "''a:1''" "''a:1''" exGame exAgent "''op2''" 5]
        finishRememberConversation_fence [of exModules "''a:1''" "''a:1''" exGame exAgent "''op1''" 5]
  by (simp add: exModules_def exGame_def exAgent_def)

text \<open>
  Claim C10. In \<^verbatim>\<open>finishDoSomething\<close>, when the fence test passes and the completion
  names an invitee that is not a player of the world, the handler throws, and the game it
  leaves behind has the agent's \<open>inProgressOperation\<close> cleared: the write made before
  the throw is not undone.
\<close>

theorem finishDoSomething_missing_invitee:
  assumes "parseGameId m IdAgents args_agentId = Inr agentId"
    and "agents (world game) agentId = Some ag"
    and "inProgressOperation ag = Some op" and "operationId op = opId"
    and "invt \<noteq> []"
    and "parseGameId m IdPlayers invt = Inr inviteeId"
    and "players (world game) inviteeId = None"
  shows "finishDoSomething m game now opId args_agentId dest (Some invt) act =
           (Inl (CouldntFindPlayer inviteeId),
            setAgent game agentId (ag\<lparr>inProgressOperation := None\<rparr>)) \<and>
         map_option inProgressOperation
           (agents (world (snd (finishDoSomething m game now opId args_agentId dest (Some invt) act)))
              agentId) = Some None \<and>
         map_option inProgressOperation (agents (world game) agentId) = Some (Some op)"
  using assms
  by (simp add: finishDoSomething_def notInProgress_def truthy_def setAgent_def Let_def)

theorem finishDoSomething_missing_invitee_witness:
  "finishDoSomething exModules exGame 5 ''op2'' ''a:1'' None (Some ''p:404'') None =
     (Inl (CouldntFindPlayer ''p:404''),
      setAgent exGame ''a:1'' (exAgent\<lparr>inProgressOperation := None\<rparr>))"
  using finishDoSomething_missing_invitee [of exModules "''a:1''" "''a:1''" exGame exAgent
      "\<lparr> kind = ''agentDoSomething'', operationId = ''op2'', started = 0 \<rparr>" "''op2''" "''p:404''" "''p:404''" 5 None None]
  by (simp add: exModules_def exGame_def exAgent_def)

text \<open>
  Claim C1, as stated, fails for \<^verbatim>\<open>agentFinishSendingMessage\<close>: the handler looks up
  the agent's player and the conversation before the fence test, so a stale completion
  for a conversation that is gone throws instead of returning. The game is unchanged.
\<close>

theorem stale_completion_throws_counterexample:
  "parseGameId exModules IdAgents ''a:1'' = Inr ''a:1'' \<and>
   agents (world exGame) ''a:1'' = Some exAgent \<and> notInProgress exAgent ''op1'' \<and>
   agentFinishSendingMessage exModules exGame 5 ''a:1'' ''c:404'' 4 ''op1'' False =
     (Inl (CouldntFindConversation ''c:404''), exGame)"
  by (simp add: agentFinishSendingMessage_def exModules_def exGame_def exAgent_def exPlayer_def
      notInProgress_def)

text \<open>
  Claim C1, amended. For an existing agent whose \<open>inProgressOperation\<close> is absent or has
  another identifier than the completion carries, no handler changes the game;
  \<^verbatim>\<open>finishRememberConversation\<close> and \<^verbatim>\<open>finishDoSomething\<close> return null, and
  \<^verbatim>\<open>agentFinishSendingMessage\<close> returns null when the agent's player and the named
  conversation exist.
\<close>

theorem stale_completion_discarded:
  assumes "parseGameId m IdAgents args_agentId = Inr agentId"
    and "agents (world game) agentId = Some ag"
    and "notInProgress ag opId"
  shows "finishRememberConversation m game now opId args_agentId = (Inr (), game) \<and>
         finishDoSomething m game now opId args_agentId dest invitee act = (Inr (), game) \<and>
         snd (agentFinishSendingMessage m game now args_agentId args_convId ts opId leave) = game \<and>
         (\<forall>pl convId conv.
            players (world game) (playerId ag) = Some pl \<and>
            parseGameId m IdConversations args_convId = Inr convId \<and>
            conversations (world game) convId = Some conv \<longrightarrow>
            agentFinishSendingMessage m game now args_agentId args_convId ts opId leave =
              (Inr (), game))"
  using assms
  by (auto simp: finishRememberConversation_def finishDoSomething_def
      agentFinishSendingMessage_def split: option.splits sum.splits)

theorem stale_completion_discarded_witness:
  "finishRememberConversation exModules exGame 5 ''op1'' ''a:1'' = (Inr (), exGame) \<and>
   finishDoSomething exModules exGame 5 ''op1'' ''a:1'' (Some (1, 2)) (Some ''p:1'')
       (Some (Activity ''reading''))
     = (Inr (), exGame) \<and>
   agentFinishSendingMessage exModules exGame 5 ''a:1'' ''c:7'' 4 ''op1'' True = (Inr (), exGame)"
  using stale_completion_discarded [of exModules "''a:1''" "''a:1''" exGame exAgent "''op1''" 5
      "Some (1, 2)" "Some ''p:1''" "Some (Activity ''reading'')" "''c:7''" 4 True]
  by (simp add: exModules_def exGame_def exAgent_def notInProgress_def)

section \<open>Usage records\<close>

text \<open>
  Writing the count of a key changes the first record with that key and nothing else:
  no record is added or removed, and the counts of other keys stay.
\<close>

lemma find_setTokenCount:
  "find (\<lambda>c. conversationId c = key) (setTokenCount key n cl) =
     map_option (\<lambda>c. c\<lparr>tokenCount := n\<rparr>) (find (\<lambda>c. conversationId c = key) cl)"
  by (induction cl) auto

lemma find_setTokenCount_other:
  "key' \<noteq> key \<Longrightarrow>
   find (\<lambda>c. conversationId c = key') (setTokenCount key n cl) =
     find (\<lambda>c. conversationId c = key') cl"
  by (induction cl) auto

lemma ids_setTokenCount:
  "map conversationId (setTokenCount key n cl) = map conversationId cl"
  by (induction cl) auto

lemma storedTokenCount_set:
  "storedTokenCount key (map_option (setTokenCount key n) lst) =
     map_option (\<lambda>_. n) (storedTokenCount key lst)"
  by (cases lst) (simp_all add: storedTokenCount_def find_setTokenCount option.map_comp comp_def)

lemma ids_set:
  "map_option (map conversationId) (map_option (setTokenCount key n) lst) =
     map_option (map conversationId) lst"
  by (cases lst) (simp_all add: ids_setTokenCount)

text \<open>
  Claim C3, as stated, fails where it promises a new record: on an agent whose list has
  no record for the conversation, \<^verbatim>\<open>updateTokens\<close> leaves the list as it is.
\<close>

theorem updateTokens_no_record_counterexample:
  "conversationList (agent exPromptData) = Some [] \<and>
   updateTokens (exCtx exPromptData) 42 = Inr exPromptData"
  by (simp add: updateTokens_def exCtx_def exPromptData_def exAlice_def exBob_def)

lemma setTokenCount_no_match:
  "\<forall>c\<in>set cl. conversationId c \<noteq> key \<Longrightarrow> setTokenCount key n cl = cl"
  by (induction cl) auto

lemma setTokenCount_first_match:
  "\<forall>x\<in>set pre. conversationId x \<noteq> key \<Longrightarrow> conversationId c = key \<Longrightarrow>
   setTokenCount key n (pre @ c # post) = pre @ c\<lparr>tokenCount := n\<rparr> # post"
  by (induction pre) auto

text \<open>
  Claim C3, amended. \<^verbatim>\<open>updateTokens\<close> sets the count of the agent's first record for
  the conversation key to the reported total, whatever the count was before, and leaves
  every other record as it is; it adds no record and removes none, so a list without a
  record for the key is unchanged. Nothing else of the agent or of the query result
  changes, except that the other agent's list is treated in the same way under the
  reverse key.
\<close>

theorem updateTokens_sets_existing:
  assumes "promptData ctx = Inr pd"
    and "name (player pd) = pn" and "name (otherPlayer pd) = opn"
  shows "\<exists>pd1. updateTokens ctx totalTokens = Inr pd1 \<and>
           storedTokenCount (pn @ ''-'' @ opn) (conversationList (agent pd1)) =
             map_option (\<lambda>_. totalTokens)
               (storedTokenCount (pn @ ''-'' @ opn) (conversationList (agent pd))) \<and>
           map_option (map conversationId) (conversationList (agent pd1)) =
             map_option (map conversationId) (conversationList (agent pd)) \<and>
           (\<forall>cl. conversationList (agent pd) = Some cl \<and>
                 (\<forall>c\<in>set cl. conversationId c \<noteq> pn @ ''-'' @ opn) \<longrightarrow>
                 conversationList (agent pd1) = Some cl) \<and>
           (\<forall>pre c post.
               conversationList (agent pd) = Some (pre @ c # post) \<and>
               (\<forall>x\<in>set pre. conversationId x \<noteq> pn @ ''-'' @ opn) \<and>
               conversationId c = pn @ ''-'' @ opn \<longrightarrow>
               conversationList (agent pd1) = Some (pre @ c\<lparr>tokenCount := totalTokens\<rparr> # post)) \<and>
           (agent pd1)\<lparr>conversationList := conversationList (agent pd)\<rparr> = agent pd \<and>
           player pd1 = player pd \<and> otherPlayer pd1 = otherPlayer pd \<and>
           conversation pd1 = conversation pd \<and>
           (otherAgent pd1 = None) = (otherAgent pd = None) \<and>
           (\<forall>oa. otherAgent pd = Some oa \<longrightarrow>
              (\<exists>oa1. otherAgent pd1 = Some oa1 \<and>
                 oa1\<lparr>conversationList := conversationList oa\<rparr> = oa \<and>
                 (conversationList oa1 = None) = (conversationList oa = None) \<and>
                 (\<forall>cl. conversationList oa = Some cl \<and>
                       (\<forall>c\<in>set cl. conversationId c \<noteq> opn @ ''-'' @ pn) \<longrightarrow>
                       conversationList oa1 = Some cl) \<and>
                 (\<forall>pre c post.
                     conversationList oa = Some (pre @ c # post) \<and>
                     (\<forall>x\<in>set pre. conversationId x \<noteq> opn @ ''-'' @ pn) \<and>
                     conversationId c = opn @ ''-'' @ pn \<longrightarrow>
                     conversationList oa1 =
                       Some (pre @ c\<lparr>tokenCount := totalTokens\<rparr> # post))))"
proof -
  let ?PO = "pn @ ''-'' @ opn" and ?OP = "opn @ ''-'' @ pn"
  let ?ag1 = "(agent pd)\<lparr>conversationList :=
                 map_option (setTokenCount ?PO totalTokens) (conversationList (agent pd))\<rparr>"
  let ?other1 = "map_option
                   (\<lambda>oa. oa\<lparr>conversationList :=
                      map_option (setTokenCount ?OP totalTokens) (conversationList oa)\<rparr>)
                   (otherAgent pd)"
  let ?pd1 = "pd\<lparr>agent := ?ag1, otherAgent := ?other1\<rparr>"
  have run: "updateTokens ctx totalTokens = Inr ?pd1"
    using assms by (simp add: updateTokens_def Let_def)
  have count: "storedTokenCount ?PO (conversationList (agent ?pd1)) =
      map_option (\<lambda>_. totalTokens) (storedTokenCount ?PO (conversationList (agent pd)))"
    by (simp add: storedTokenCount_set)
  have ids: "map_option (map conversationId) (conversationList (agent ?pd1)) =
      map_option (map conversationId) (conversationList (agent pd))"
    by (simp add: ids_set)
  have same: "\<forall>cl. conversationList (agent pd) = Some cl \<and>
                 (\<forall>c\<in>set cl. conversationId c \<noteq> ?PO) \<longrightarrow>
                 conversationList (agent ?pd1) = Some cl"
    by (simp add: setTokenCount_no_match)
  have first: "\<forall>pre c post.
      conversationList (agent pd) = Some (pre @ c # post) \<and>
      (\<forall>x\<in>set pre. conversationId x \<noteq> ?PO) \<and> conversationId c = ?PO \<longrightarrow>
      conversationList (agent ?pd1) = Some (pre @ c\<lparr>tokenCount := totalTokens\<rparr> # post)"
    by (simp add: setTokenCount_first_match)
  have frame: "(agent ?pd1)\<lparr>conversationList := conversationList (agent pd)\<rparr> = agent pd"
    "player ?pd1 = player pd" "otherPlayer ?pd1 = otherPlayer pd"
    "conversation ?pd1 = conversation pd" "(otherAgent ?pd1 = None) = (otherAgent pd = None)"
    by simp_all
  have other: "\<forall>oa. otherAgent pd = Some oa \<longrightarrow>
      (\<exists>oa1. otherAgent ?pd1 = Some oa1 \<and>
         oa1\<lparr>conversationList := conversationList oa\<rparr> = oa \<and>
         (conversationList oa1 = None) = (conversationList oa = None) \<and>
         (\<forall>cl. conversationList oa = Some cl \<and>
               (\<forall>c\<in>set cl. conversationId c \<noteq> ?OP) \<longrightarrow>
               conversationList oa1 = Some cl) \<and>
         (\<forall>pre c post.
             conversationList oa = Some (pre @ c # post) \<and>
             (\<forall>x\<in>set pre. conversationId x \<noteq> ?OP) \<and> conversationId c = ?OP \<longrightarrow>
             conversationList oa1 = Some (pre @ c\<lparr>tokenCount := totalTokens\<rparr> # post)))"
    by (simp add: setTokenCount_no_match setTokenCount_first_match)
  show ?thesis
    by (intro exI [of _ ?pd1] conjI) (fact run count ids same first frame other)+
qed

theorem updateTokens_sets_existing_witness:
  "updateTokens (exCtx exUsedPromptData) 42 =
     Inr (exPromptData\<lparr>agent := exAlice\<lparr>conversationList :=
                           Some [\<lparr>conversationId = ''Alice-Bob'', tokenCount = 42\<rparr>]\<rparr>,
                       otherAgent := Some (exBob\<lparr>conversationList :=
                           Some [\<lparr>conversationId = ''Bob-Alice'', tokenCount = 42\<rparr>]\<rparr>)\<rparr>) \<and>
   storedTokenCount ''Alice-Bob'' (conversationList (agent exUsedPromptData)) = Some 1500 \<and>
   updateTokens (exCtx exCarolPromptData) 42 = Inr exCarolPromptData \<and>
   conversationList (agent exCarolPromptData) =
     Some [\<lparr>conversationId = ''Alice-Carol'', tokenCount = 7\<rparr>]"
proof -
  note t = updateTokens_sets_existing
  have used: "promptData (exCtx exUsedPromptData) = Inr exUsedPromptData"
    "name (player exUsedPromptData) = ''Alice''" "name (otherPlayer exUsedPromptData) = ''Bob''"
    by (simp_all add: exCtx_def exUsedPromptData_def exPromptData_def)
  have carol: "promptData (exCtx exCarolPromptData) = Inr exCarolPromptData"
    "name (player exCarolPromptData) = ''Alice''" "name (otherPlayer exCarolPromptData) = ''Bob''"
    by (simp_all add: exCtx_def exCarolPromptData_def exPromptData_def)
  obtain pd1 where r1: "updateTokens (exCtx exUsedPromptData) 42 = Inr pd1"
    and f1: "\<forall>pre c post.
               conversationList (agent exUsedPromptData) = Some (pre @ c # post) \<and>
               (\<forall>x\<in>set pre. conversationId x \<noteq> ''Alice'' @ ''-'' @ ''Bob'') \<and>
               conversationId c = ''Alice'' @ ''-'' @ ''Bob'' \<longrightarrow>
               conversationList (agent pd1) = Some (pre @ c\<lparr>tokenCount := 42\<rparr> # post)"
    using t [OF used, of 42] by (elim exE conjE) (rule that, assumption+)
  have a1: "conversationList (agent pd1) =
              Some [\<lparr>conversationId = ''Alice-Bob'', tokenCount = 42\<rparr>]"
    using f1 [rule_format, of "[]" "\<lparr>conversationId = ''Alice-Bob'', tokenCount = 1500\<rparr>" "[]"]
    by (simp add: exUsedPromptData_def exPromptData_def)
  obtain pd2 where r2: "updateTokens (exCtx exCarolPromptData) 42 = Inr pd2"
    and f2: "\<forall>cl. conversationList (agent exCarolPromptData) = Some cl \<and>
                 (\<forall>c\<in>set cl. conversationId c \<noteq> ''Alice'' @ ''-'' @ ''Bob'') \<longrightarrow>
                 conversationList (agent pd2) = Some cl"
    using t [OF carol, of 42] by (elim exE conjE) (rule that, assumption+)
  have a2: "conversationList (agent pd2) =
              Some [\<lparr>conversationId = ''Alice-Carol'', tokenCount = 7\<rparr>]"
    using f2 [rule_format, of "[\<lparr>conversationId = ''Alice-Carol'', tokenCount = 7\<rparr>]"]
    by (simp add: exCarolPromptData_def exPromptData_def)
  have e1: "updateTokens (exCtx exUsedPromptData) 42 =
     Inr (exPromptData\<lparr>agent := exAlice\<lparr>conversationList :=
                           Some [\<lparr>conversationId = ''Alice-Bob'', tokenCount = 42\<rparr>]\<rparr>,
                       otherAgent := Some (exBob\<lparr>conversationList :=
                           Some [\<lparr>conversationId = ''Bob-Alice'', tokenCount = 42\<rparr>]\<rparr>)\<rparr>)"
    by (simp add: updateTokens_def exCtx_def exUsedPromptData_def exPromptData_def exAlice_def
        exBob_def Let_def)
  have e2: "updateTokens (exCtx exCarolPromptData) 42 = Inr exCarolPromptData"
    by (simp add: updateTokens_def exCtx_def exCarolPromptData_def exPromptData_def exAlice_def
        exBob_def Let_def)
  have s: "storedTokenCount ''Alice-Bob'' (conversationList (agent exUsedPromptData)) = Some 1500"
    by (simp add: storedTokenCount_def exUsedPromptData_def exPromptData_def)
  have l: "conversationList (agent exCarolPromptData) =
     Some [\<lparr>conversationId = ''Alice-Carol'', tokenCount = 7\<rparr>]"
    by (simp add: exCarolPromptData_def exPromptData_def)
  show ?thesis
    using r1 a1 r2 a2 e1 e2 s l by simp
qed

text \<open>
  The acting agent's guard tests for the identifier of the record it appends, and keeps
  identifiers unique.
\<close>

lemma pushUnlessSome_same_unique:
  "uniqueConversationIds lst \<Longrightarrow>
   uniqueConversationIds (pushUnlessSome (conversationId c) c lst)"
  by (cases lst) (auto simp: uniqueConversationIds_def pushUnlessSome_def list_ex_iff)

text \<open>
  Claim C4 does not hold of the code. For the other agent, \<^verbatim>\<open>startConversationMessage\<close>
  tests for the key \<open>Bob-Alice\<close> and appends the record with the key \<open>Alice-Bob\<close>. Two
  starts by Alice with Bob, from the empty lists of freshly created agents, leave Bob with
  two records of the same \<open>conversationId\<close>.
\<close>

theorem startConversationMessage_duplicates_record:
  "uniqueConversationIds (conversationList exBob) \<and>
   map_sum id (\<lambda>(generated, pd). map_option conversationList (otherAgent pd)) (fst exStartTwice) =
     Inr (Some (Some [\<lparr>conversationId = ''Alice-Bob'', tokenCount = 0\<rparr>,
                      \<lparr>conversationId = ''Alice-Bob'', tokenCount = 0\<rparr>])) \<and>
   \<not> uniqueConversationIds (Some [\<lparr>conversationId = ''Alice-Bob'', tokenCount = 0\<rparr>,
                                  \<lparr>conversationId = ''Alice-Bob'', tokenCount = 0\<rparr>])"
  by (simp add: exStartTwice_def startConversationMessage_def pushUnlessSome_def
      uniqueConversationIds_def exServices_def exCtx_def exPromptData_def exAlice_def exBob_def
      Let_def)

section \<open>Consolidation\<close>

text \<open>
  Claim C2. One call of \<^verbatim>\<open>dumpConversationTable\<close> in which both transcripts are read
  sends exactly one upload to each participant's knowledge table, then the deletion of the
  caller's transcript, and leaves the caller's count for the conversation at zero. The
  requests are listed in the order in which they are sent.
\<close>

theorem dumpConversationTable_consolidates:
  assumes "promptData ctx = Inr pd"
    and "name (player pd) = pn" and "name (otherPlayer pd) = opn"
    and "listRows sv log (pn @ ''-'' @ opn) 0 100 ''chat'' = Inr d1"
    and "listRows sv
           (dumpMemory sv d1 pn opn (map_option identity (otherAgent pd))
              (log @ [ListTableRows (pn @ ''-'' @ opn) 0 100 ''chat'']))
           (opn @ ''-'' @ pn) 0 100 ''chat'' = Inr d2"
  shows "\<exists>m1 m2 pd1.
           dumpConversationTable sv ctx log =
             (Inr pd1,
              log @ [ListTableRows (pn @ ''-'' @ opn) 0 100 ''chat'',
                     UploadFile (''Knowledge_Ai-Town-'' @ pn) (''Agent_'' @ pn @ ''_memory.txt'') m1,
                     ListTableRows (opn @ ''-'' @ pn) 0 100 ''chat'',
                     UploadFile (''Knowledge_Ai-Town-'' @ opn) (''Agent_'' @ opn @ ''_memory.txt'') m2,
                     DeleteTable (pn @ ''-'' @ opn) ''chat'']) \<and>
           storedTokenCount (pn @ ''-'' @ opn) (conversationList (agent pd1)) =
             map_option (\<lambda>_. 0)
               (storedTokenCount (pn @ ''-'' @ opn) (conversationList (agent pd))) \<and>
           map_option (map conversationId) (conversationList (agent pd1)) =
             map_option (map conversationId) (conversationList (agent pd))"
proof -
  let ?PO = "pn @ ''-'' @ opn" and ?OP = "opn @ ''-'' @ pn"
  let ?ident = "map_option identity (otherAgent pd)"
  let ?log1 = "log @ [ListTableRows ?PO 0 100 ''chat'']"
  have r1: "getChatTableRows sv ?PO log = (Some d1, ?log1)"
    using assms(4) by (simp add: getChatTableRows_def)
  obtain m1 where up1: "dumpMemory sv d1 pn opn ?ident ?log1 =
      ?log1 @ [UploadFile (''Knowledge_Ai-Town-'' @ pn) (''Agent_'' @ pn @ ''_memory.txt'') m1]"
    by (simp add: dumpMemory_def dumpMemoryIntoKnowledgeTable_def Let_def split: sum.splits)
  let ?log2 = "dumpMemory sv d1 pn opn ?ident ?log1"
  let ?log3 = "?log2 @ [ListTableRows ?OP 0 100 ''chat'']"
  have r2: "getChatTableRows sv ?OP ?log2 = (Some d2, ?log3)"
    using assms(5) by (simp add: getChatTableRows_def)
  obtain m2 where up2: "dumpMemory sv d2 opn pn ?ident ?log3 =
      ?log3 @ [UploadFile (''Knowledge_Ai-Town-'' @ opn) (''Agent_'' @ opn @ ''_memory.txt'') m2]"
    by (simp add: dumpMemory_def dumpMemoryIntoKnowledgeTable_def Let_def split: sum.splits)
  let ?log4 = "dumpMemory sv d2 opn pn ?ident ?log3"
  obtain r where del: "deleteConversationTable sv ?PO ?log4 = (r, ?log4 @ [DeleteTable ?PO ''chat''])"
    by (cases "deleteTable sv ?log4 ?PO ''chat''") (simp_all add: deleteConversationTable_def)
  let ?pd1 = "pd\<lparr>agent := (agent pd)\<lparr>conversationList :=
                 map_option (setTokenCount ?PO 0) (conversationList (agent pd))\<rparr>\<rparr>"
  have run: "dumpConversationTable sv ctx log = (Inr ?pd1, ?log4 @ [DeleteTable ?PO ''chat''])"
    using assms(1,2,3) r1 r2 del
    by (simp add: dumpConversationTable_def Let_def)
  have logs: "?log4 @ [DeleteTable ?PO ''chat''] =
      log @ [ListTableRows ?PO 0 100 ''chat'',
             UploadFile (''Knowledge_Ai-Town-'' @ pn) (''Agent_'' @ pn @ ''_memory.txt'') m1,
             ListTableRows ?OP 0 100 ''chat'',
             UploadFile (''Knowledge_Ai-Town-'' @ opn) (''Agent_'' @ opn @ ''_memory.txt'') m2,
             DeleteTable ?PO ''chat'']"
    using up1 up2 by simp
  show ?thesis
    using run logs by (simp add: storedTokenCount_set ids_set)
qed

theorem dumpConversationTable_consolidates_witness:
  "\<exists>m1 m2 pd1.
     dumpConversationTable (exServices [''Alice-Bob'', ''Bob-Alice'']) (exCtx exUsedPromptData) [] =
       (Inr pd1,
        [ListTableRows ''Alice-Bob'' 0 100 ''chat'',
         UploadFile ''Knowledge_Ai-Town-Alice'' ''Agent_Alice_memory.txt'' m1,
         ListTableRows ''Bob-Alice'' 0 100 ''chat'',
         UploadFile ''Knowledge_Ai-Town-Bob'' ''Agent_Bob_memory.txt'' m2,
         DeleteTable ''Alice-Bob'' ''chat'']) \<and>
     storedTokenCount ''Alice-Bob'' (conversationList (agent exUsedPromptData)) = Some 1500 \<and>
     storedTokenCount ''Alice-Bob'' (conversationList (agent pd1)) = Some 0"
  using dumpConversationTable_consolidates
    [of "exCtx exUsedPromptData" exUsedPromptData "''Alice''" "''Bob''"
        "exServices [''Alice-Bob'', ''Bob-Alice'']" "[]" exPage exPage]
  by (auto simp: exServices_def exCtx_def exPromptData_def exUsedPromptData_def exAlice_def
      storedTokenCount_def)

text \<open>
  Claim C7. Once the query has answered, \<^verbatim>\<open>dumpConversationTable\<close> never throws,
  whatever the service does. When the read of a transcript throws, no upload is sent for
  that direction: the other direction is still read and, if present, uploaded, and the
  deletion is still requested. A deletion that throws makes \<^verbatim>\<open>deleteConversationTable\<close>
  return \<^verbatim>\<open>undefined\<close> and not throw.
\<close>

theorem dumpConversationTable_tolerates_missing:
  assumes "promptData ctx = Inr pd"
    and "name (player pd) = pn" and "name (otherPlayer pd) = opn"
  shows "(\<exists>pd1 log1. dumpConversationTable sv ctx log = (Inr pd1, log1)) \<and>
         (listRows sv log (pn @ ''-'' @ opn) 0 100 ''chat'' = Inl e1 \<and>
          listRows sv (log @ [ListTableRows (pn @ ''-'' @ opn) 0 100 ''chat''])
            (opn @ ''-'' @ pn) 0 100 ''chat'' = Inl e2 \<longrightarrow>
            snd (dumpConversationTable sv ctx log) =
              log @ [ListTableRows (pn @ ''-'' @ opn) 0 100 ''chat'',
                     ListTableRows (opn @ ''-'' @ pn) 0 100 ''chat'',
                     DeleteTable (pn @ ''-'' @ opn) ''chat'']) \<and>
         (listRows sv log (pn @ ''-'' @ opn) 0 100 ''chat'' = Inl e3 \<and>
          listRows sv (log @ [ListTableRows (pn @ ''-'' @ opn) 0 100 ''chat''])
            (opn @ ''-'' @ pn) 0 100 ''chat'' = Inr d2 \<longrightarrow>
            (\<exists>m2. snd (dumpConversationTable sv ctx log) =
              log @ [ListTableRows (pn @ ''-'' @ opn) 0 100 ''chat'',
                     ListTableRows (opn @ ''-'' @ pn) 0 100 ''chat'',
                     UploadFile (''Knowledge_Ai-Town-'' @ opn) (''Agent_'' @ opn @ ''_memory.txt'') m2,
                     DeleteTable (pn @ ''-'' @ opn) ''chat''])) \<and>
         (listRows sv log (pn @ ''-'' @ opn) 0 100 ''chat'' = Inr d1 \<and>
          listRows sv
            (dumpMemory sv d1 pn opn (map_option identity (otherAgent pd))
               (log @ [ListTableRows (pn @ ''-'' @ opn) 0 100 ''chat'']))
            (opn @ ''-'' @ pn) 0 100 ''chat'' = Inl e4 \<longrightarrow>
            (\<exists>m1. snd (dumpConversationTable sv ctx log) =
              log @ [ListTableRows (pn @ ''-'' @ opn) 0 100 ''chat'',
                     UploadFile (''Knowledge_Ai-Town-'' @ pn) (''Agent_'' @ pn @ ''_memory.txt'') m1,
                     ListTableRows (opn @ ''-'' @ pn) 0 100 ''chat'',
                     DeleteTable (pn @ ''-'' @ opn) ''chat''])) \<and>
         (deleteTable sv h t ''chat'' = Inl e5 \<longrightarrow>
            deleteConversationTable sv t h = (None, h @ [DeleteTable t ''chat'']))"
proof (intro conjI impI)
  show "\<exists>pd1 log1. dumpConversationTable sv ctx log = (Inr pd1, log1)"
    using assms(1) by (simp add: dumpConversationTable_def Let_def split: prod.splits)
next
  assume "listRows sv log (pn @ ''-'' @ opn) 0 100 ''chat'' = Inl e1 \<and>
          listRows sv (log @ [ListTableRows (pn @ ''-'' @ opn) 0 100 ''chat''])
            (opn @ ''-'' @ pn) 0 100 ''chat'' = Inl e2"
  then show "snd (dumpConversationTable sv ctx log) =
              log @ [ListTableRows (pn @ ''-'' @ opn) 0 100 ''chat'',
                     ListTableRows (opn @ ''-'' @ pn) 0 100 ''chat'',
                     DeleteTable (pn @ ''-'' @ opn) ''chat'']"
    using assms
    by (simp add: dumpConversationTable_def getChatTableRows_def deleteConversationTable_def
        Let_def split: prod.splits sum.splits)
next
  assume "listRows sv log (pn @ ''-'' @ opn) 0 100 ''chat'' = Inl e3 \<and>
          listRows sv (log @ [ListTableRows (pn @ ''-'' @ opn) 0 100 ''chat''])
            (opn @ ''-'' @ pn) 0 100 ''chat'' = Inr d2"
  then show "\<exists>m2. snd (dumpConversationTable sv ctx log) =
              log @ [ListTableRows (pn @ ''-'' @ opn) 0 100 ''chat'',
                     ListTableRows (opn @ ''-'' @ pn) 0 100 ''chat'',
                     UploadFile (''Knowledge_Ai-Town-'' @ opn) (''Agent_'' @ opn @ ''_memory.txt'') m2,
                     DeleteTable (pn @ ''-'' @ opn) ''chat'']"
    using assms
    by (simp add: dumpConversationTable_def getChatTableRows_def deleteConversationTable_def
        dumpMemory_def dumpMemoryIntoKnowledgeTable_def Let_def split: prod.splits sum.splits)
next
  assume "listRows sv log (pn @ ''-'' @ opn) 0 100 ''chat'' = Inr d1 \<and>
          listRows sv
            (dumpMemory sv d1 pn opn (map_option identity (otherAgent pd))
               (log @ [ListTableRows (pn @ ''-'' @ opn) 0 100 ''chat'']))
            (opn @ ''-'' @ pn) 0 100 ''chat'' = Inl e4"
  then show "\<exists>m1. snd (dumpConversationTable sv ctx log) =
              log @ [ListTableRows (pn @ ''-'' @ opn) 0 100 ''chat'',
                     UploadFile (''Knowledge_Ai-Town-'' @ pn) (''Agent_'' @ pn @ ''_memory.txt'') m1,
                     ListTableRows (opn @ ''-'' @ pn) 0 100 ''chat'',
                     DeleteTable (pn @ ''-'' @ opn) ''chat'']"
    using assms
    by (simp add: dumpConversationTable_def getChatTableRows_def deleteConversationTable_def
        dumpMemory_def dumpMemoryIntoKnowledgeTable_def Let_def split: prod.splits sum.splits)
next
  assume "deleteTable sv h t ''chat'' = Inl e5"
  then show "deleteConversationTable sv t h = (None, h @ [DeleteTable t ''chat''])"
    by (simp add: deleteConversationTable_def)
qed

theorem dumpConversationTable_tolerates_missing_witness:
  "dumpConversationTable (exServices []) (exCtx exPromptData) [] =
     (Inr exPromptData,
      [ListTableRows ''Alice-Bob'' 0 100 ''chat'', ListTableRows ''Bob-Alice'' 0 100 ''chat'',
       DeleteTable ''Alice-Bob'' ''chat'']) \<and>
   (\<exists>m2. snd (dumpConversationTable (exServices [''Bob-Alice'']) (exCtx exPromptData) []) =
      [ListTableRows ''Alice-Bob'' 0 100 ''chat'', ListTableRows ''Bob-Alice'' 0 100 ''chat'',
       UploadFile ''Knowledge_Ai-Town-Bob'' ''Agent_Bob_memory.txt'' m2,
       DeleteTable ''Alice-Bob'' ''chat'']) \<and>
   (\<exists>m1. snd (dumpConversationTable (exServices [''Alice-Bob'']) (exCtx exPromptData) []) =
      [ListTableRows ''Alice-Bob'' 0 100 ''chat'',
       UploadFile ''Knowledge_Ai-Town-Alice'' ''Agent_Alice_memory.txt'' m1,
       ListTableRows ''Bob-Alice'' 0 100 ''chat'', DeleteTable ''Alice-Bob'' ''chat'']) \<and>
   deleteConversationTable (exServices []) ''Alice-Bob'' [] =
     (None, [DeleteTable ''Alice-Bob'' ''chat''])"
proof -
  note t = dumpConversationTable_tolerates_missing
  have q: "promptData (exCtx exPromptData) = Inr exPromptData"
    and n1: "name (player exPromptData) = ''Alice''"
    and n2: "name (otherPlayer exPromptData) = ''Bob''"
    by (simp_all add: exCtx_def exPromptData_def)
  have gone: "listRows (exServices []) h t off lim ty = Inl (Thrown ''Table not found'')"
    for h t off lim ty
    by (simp add: exServices_def)
  have a: "snd (dumpConversationTable (exServices []) (exCtx exPromptData) []) =
      [ListTableRows ''Alice-Bob'' 0 100 ''chat'', ListTableRows ''Bob-Alice'' 0 100 ''chat'',
       DeleteTable ''Alice-Bob'' ''chat'']"
    using t [OF q n1 n2, of "exServices []" "[]"
             "Thrown ''Table not found''" "Thrown ''Table not found''"] gone
    by simp
  have a': "fst (dumpConversationTable (exServices []) (exCtx exPromptData) []) = Inr exPromptData"
    by (simp add: dumpConversationTable_def getChatTableRows_def deleteConversationTable_def
        exServices_def exCtx_def exPromptData_def exAlice_def Let_def)
  have b: "\<exists>m2. snd (dumpConversationTable (exServices [''Bob-Alice'']) (exCtx exPromptData) []) =
      [ListTableRows ''Alice-Bob'' 0 100 ''chat'', ListTableRows ''Bob-Alice'' 0 100 ''chat'',
       UploadFile ''Knowledge_Ai-Town-Bob'' ''Agent_Bob_memory.txt'' m2,
       DeleteTable ''Alice-Bob'' ''chat'']"
    using t [OF q n1 n2, of "exServices [''Bob-Alice'']" "[]" _ _
             "Thrown ''Table not found''" exPage]
    by (simp add: exServices_def)
  have c: "\<exists>m1. snd (dumpConversationTable (exServices [''Alice-Bob'']) (exCtx exPromptData) []) =
      [ListTableRows ''Alice-Bob'' 0 100 ''chat'',
       UploadFile ''Knowledge_Ai-Town-Alice'' ''Agent_Alice_memory.txt'' m1,
       ListTableRows ''Bob-Alice'' 0 100 ''chat'', DeleteTable ''Alice-Bob'' ''chat'']"
    using t [OF q n1 n2, of "exServices [''Alice-Bob'']" "[]" _ _ _ _
             exPage "Thrown ''Table not found''"]
    by (simp add: exServices_def)
  have d: "deleteConversationTable (exServices []) ''Alice-Bob'' [] =
      (None, [DeleteTable ''Alice-Bob'' ''chat''])"
    using t [OF q n1 n2, of "exServices []" _ _ _ _ _ _ _ "[]" "''Alice-Bob''"
             "Thrown ''Table not found''"]
    by (simp add: exServices_def)
  show ?thesis
    using a a' b c d by (simp add: prod_eq_iff)
qed

section \<open>Turn orchestration requests\<close>

lemma createAgentConversationTable_log:
  "createAgentConversationTable sv src dst log = log @ [DuplicateTable src dst]"
  by (simp add: createAgentConversationTable_def split: sum.splits)

text \<open>
  Claim C6, as stated, fails for a human counterpart: the reverse transcript is requested
  only if \<^verbatim>\<open>!otherPlayer.human\<close>, so starting a conversation with Hank asks for
  \<open>Alice-Hank\<close> alone.
\<close>

theorem startConversationMessage_human_counterexample:
  "truthy (human (otherPlayer exHumanPromptData)) \<and>
   name (player exHumanPromptData) = ''Alice'' \<and>
   name (otherPlayer exHumanPromptData) = ''Hank'' \<and>
   provisioned (snd (startConversationMessage (exServices []) (exCtx exHumanPromptData) [])) =
     [''Alice-Hank'']"
  by (simp add: startConversationMessage_def createAgentConversationTable_log truthy_def
      exServices_def exCtx_def exHumanPromptData_def Let_def)

text \<open>
  Claim C6, amended. \<^verbatim>\<open>startConversationMessage\<close> requests the transcript of the
  initiator's direction and, when the counterpart is not human, the transcript of the
  reverse direction, both before the generation request for the opening line.
\<close>

theorem startConversationMessage_provisions_first:
  assumes "promptData ctx = Inr pd"
    and "name (player pd) = pn" and "name (otherPlayer pd) = opn"
  shows "\<exists>req. snd (startConversationMessage sv ctx log) =
           log @ [DuplicateTable (Some (chatTableId (agent pd))) (pn @ ''-'' @ opn)]
               @ (if truthy (human (otherPlayer pd)) then []
                  else [DuplicateTable (map_option chatTableId (otherAgent pd)) (opn @ ''-'' @ pn)])
               @ [ChatCompletion req] \<and>
           req_conversationId req = pn @ ''-'' @ opn"
  using assms
  by (simp add: startConversationMessage_def createAgentConversationTable_log Let_def
      split: sum.splits)

theorem startConversationMessage_provisions_first_witness:
  "\<exists>req. snd (startConversationMessage (exServices []) (exCtx exPromptData) []) =
      [DuplicateTable (Some ''Chat_Ai-Town-Alice'') ''Alice-Bob'',
       DuplicateTable (Some ''Chat_Ai-Town-Bob'') ''Bob-Alice'',
       ChatCompletion req]"
  using startConversationMessage_provisions_first
    [of "exCtx exPromptData" exPromptData "''Alice''" "''Bob''" "exServices []" "[]"]
  by (auto simp: exCtx_def exPromptData_def exAlice_def exBob_def truthy_def)

text \<open>
  Every generation request of the three turn functions carries the stop sequences of the
  counterpart's name and the speaker's name.
\<close>

lemma stopWords_eq:
  "stopWords lower c s = [c @ '' to '' @ s @ '':'', lower (c @ '' to '' @ s) @ '':'']"
  by (simp add: stopWords_def)

lemma start_requests:
  "ChatCompletion req \<in> set (snd (startConversationMessage sv ctx [])) \<Longrightarrow>
   \<exists>pd. promptData ctx = Inr pd \<and> stop req = stopWords (toLowerCase ctx) (name (otherPlayer pd)) (name (player pd))"
  by (auto simp: startConversationMessage_def createAgentConversationTable_log Let_def
      split: sum.splits if_splits)

lemma continue_requests:
  "ChatCompletion req \<in> set (snd (continueConversationMessage sv ctx [])) \<Longrightarrow>
   \<exists>pd. promptData ctx = Inr pd \<and> stop req = stopWords (toLowerCase ctx) (name (otherPlayer pd)) (name (player pd))"
  by (auto simp: continueConversationMessage_def createAgentConversationTable_log Let_def
      split: sum.splits if_splits)

lemma leave_requests:
  "ChatCompletion req \<in> set (snd (leaveConversationMessage sv ctx [])) \<Longrightarrow>
   \<exists>pd. promptData ctx = Inr pd \<and> stop req = stopWords (toLowerCase ctx) (name (otherPlayer pd)) (name (player pd))"
  by (auto simp: leaveConversationMessage_def Let_def split: sum.splits if_splits)

lemma exToLowerCase_example: "exToLowerCase ''Bob to Alice'' = ''bob to alice''"
  by code_simp

text \<open>
  Claim C8. For every pair of names and whatever the runtime's \<^verbatim>\<open>toLowerCase\<close> does,
  the stop sequences are exactly the two strings \<open>counterpart to speaker:\<close> and its
  lower-case variant, two being below the service's limit of four, and these are the
  stop sequences of every generation request sent by start, continue and leave.
\<close>

theorem stopWords_two_variants:
  "stopWords lower c s = [c @ '' to '' @ s @ '':'', lower (c @ '' to '' @ s) @ '':''] \<and>
   length (stopWords lower c s) = 2 \<and> length (stopWords lower c s) \<le> 4 \<and>
   (ChatCompletion req \<in> set (snd (startConversationMessage sv ctx [])) \<union>
                           set (snd (continueConversationMessage sv ctx [])) \<union>
                           set (snd (leaveConversationMessage sv ctx [])) \<longrightarrow>
      (\<exists>pd. promptData ctx = Inr pd \<and>
            stop req = [name (otherPlayer pd) @ '' to '' @ name (player pd) @ '':'',
                        toLowerCase ctx (name (otherPlayer pd) @ '' to '' @ name (player pd))
                          @ '':'']))"
  using start_requests [of req sv ctx] continue_requests [of req sv ctx]
    leave_requests [of req sv ctx]
  by (auto simp: stopWords_eq)

theorem stopWords_two_variants_witness:
  "ChatCompletion exContinueRequest \<in>
     set (snd (continueConversationMessage (exServices []) (exCtx exPromptData) [])) \<and>
   stop exContinueRequest = [''Bob to Alice:'', ''bob to alice:''] \<and>
   stopWords exToLowerCase ''Bob'' ''Alice'' = [''Bob to Alice:'', ''bob to alice:'']"
proof -
  have mem: "ChatCompletion exContinueRequest \<in>
      set (snd (continueConversationMessage (exServices []) (exCtx exPromptData) []))"
    using exToLowerCase_example
    by (simp add: continueConversationMessage_def previousMessages_def stopWords_def
        truthy_def exContinueRequest_def exServices_def exCtx_def exPromptData_def Let_def)
  show ?thesis
    using mem stopWords_two_variants [of exToLowerCase "''Bob''" "''Alice''" exContinueRequest
        "exServices []"
        "exCtx exPromptData"]
    using exToLowerCase_example by (simp add: exContinueRequest_def)
qed

text \<open>
  What \<^verbatim>\<open>previousMessages\<close> returns: nothing for an empty conversation, otherwise the
  last message alone, labelled with its author and the other participant, whoever the
  author is.
\<close>

lemma previousMessages_last:
  "previousMessages (Inr msgs) pl other =
     Inr (if msgs = [] then []
          else [\<lparr>role = ''user'',
                 content = (if author (last msgs) = player_id pl
                            then name pl @ '' to '' @ name other
                            else name other @ '' to '' @ name pl) @ '': '' @ msg_text (last msgs)\<rparr>])"
  by (simp add: previousMessages_def Let_def)

text \<open>
  Claim C5 does not hold of the code. When the acting player wrote the last message, the
  context of a continue or leave turn is that message of the acting player, not the
  most recent message of the partner: after Bob's \<open>Hi Alice\<close> and Alice's \<open>Hello Bob\<close>,
  Alice's leave request carries \<open>Alice to Bob: Hello Bob\<close>.
\<close>

theorem previousMessages_own_message:
  "listMessages (exCtx exPromptData) =
     Inr [\<lparr>author = ''p:2'', msg_text = ''Hi Alice''\<rparr>, \<lparr>author = ''p:1'', msg_text = ''Hello Bob''\<rparr>] \<and>
   player_id (player exPromptData) = ''p:1'' \<and>
   previousMessages (listMessages (exCtx exPromptData)) (player exPromptData)
       (otherPlayer exPromptData) =
     Inr [\<lparr>role = ''user'', content = ''Alice to Bob: Hello Bob''\<rparr>] \<and>
   map (\<lambda>r. tl (messages r))
     [r. ChatCompletion r \<leftarrow> snd (leaveConversationMessage (exServices [])
                                   (exCtx exPromptData) [])] =
     [[\<lparr>role = ''user'', content = ''Alice to Bob: Hello Bob''\<rparr>]]"
  by (simp add: leaveConversationMessage_def previousMessages_def exServices_def exCtx_def
      exPromptData_def Let_def)

end
